theory Spec2Isabelle
  imports Complex_Main "HOL-Library.Word"
begin

section \<open>Values exchanged by the dashboard and its consumers\<close>

text \<open>
  A window identifier is a JavaScript value that is either a number (an Electron popup)
  or a string (a browser client, which generates a UUID).
\<close>

datatype windowId = NumId int | StrId string

datatype sdpType = Offer | Answer

record sessionDescription =
  sdType :: sdpType
  sdp :: string

text \<open>
  An ICE candidate as it travels over signaling: the fields \<open>candidate\<close> and
  \<open>sdpMid\<close> may be missing (\<open>None\<close>) or the empty string, both falsy in
  JavaScript.
\<close>

record iceCandidate =
  candidate :: "string option"
  sdpMid :: "string option"
  sdpMLineIndex :: "nat option"


datatype payload = Binary "8 word list" | Text string

datatype jsError = InvalidStateError | OperationError | TypeError

datatype logLevel = LogInfo | LogWarn | LogError

datatype direction = ToPopup | ToDashboard

text \<open>Calls made on \<open>window.electronAPI\<close>, in the order they are made.\<close>

datatype signal =
    SendOffer windowId sessionDescription
  | SendOfferToBrowserClient windowId sessionDescription
  | SendIceCandidate windowId iceCandidate direction
  | SendIceToBrowserClient windowId iceCandidate
  | NotifyWindowClosed windowId

datatype adapter = Local | Relay

text \<open>
  \<open>sendOffer\<close> and \<open>sendIceCandidate\<close> travel over the IPC channels
  \<open>webrtc:offer\<close> and \<open>webrtc:ice-candidate\<close> to a popup window; the
  \<open>...ToBrowserClient\<close> calls travel over \<open>browser-client:offer\<close> and
  \<open>browser-client:ice\<close> to the Socket.IO relay.
\<close>

fun adapterOf :: "signal \<Rightarrow> adapter option" where
  "adapterOf (SendOffer _ _) = Some Local"
| "adapterOf (SendIceCandidate _ _ _) = Some Local"
| "adapterOf (SendOfferToBrowserClient _ _) = Some Relay"
| "adapterOf (SendIceToBrowserClient _ _) = Some Relay"
| "adapterOf (NotifyWindowClosed _) = None"

section \<open>The browser objects the code drives\<close>

datatype channelState = Connecting | Open | Closing | Closed

datatype rtcConnectionState = CNew | CConnecting | CConnected | CDisconnected | CFailed | CClosed

datatype rtcSignalingState = Stable | HaveLocalOffer | HaveRemoteOffer | SigClosed

record dataChannel =
  readyState :: channelState
  delivered :: "payload list"

text \<open>
  An \<open>RTCPeerConnection\<close> with the two data channels created on it. The last two
  fields are the properties the controller adds to the object: \<open>pc.controlChannel\<close>
  (set when the control channel opens; it refers to the control channel, so it is a flag
  here) and \<open>pc.audioChannelInterval\<close>.
\<close>

record peerConnection =
  connectionState :: rtcConnectionState
  signalingState :: rtcSignalingState
  localDescription :: "sessionDescription option"
  remoteDescription :: "sessionDescription option"
  appliedCandidates :: "iceCandidate list"
  audioChannel :: dataChannel
  controlChannel :: dataChannel
  controlChannelSet :: bool
  audioChannelInterval :: "nat option"

definition newDataChannel :: dataChannel where
  "newDataChannel = \<lparr>readyState = Connecting, delivered = []\<rparr>"

definition newRTCPeerConnection :: peerConnection where
  "newRTCPeerConnection =
     \<lparr>connectionState = CNew, signalingState = Stable, localDescription = None,
      remoteDescription = None, appliedCandidates = [],
      audioChannel = newDataChannel, controlChannel = newDataChannel,
      controlChannelSet = False, audioChannelInterval = None\<rparr>"

text \<open>
  \<open>setLocalDescription\<close> and \<open>setRemoteDescription\<close> follow the signaling state
  machine of the browser: a description that does not fit the current state is rejected
  with \<open>InvalidStateError\<close>.
\<close>

definition setLocalDescription ::
  "sessionDescription \<Rightarrow> peerConnection \<Rightarrow> jsError + peerConnection" where
  "setLocalDescription d pc =
     (if sdType d = Offer \<and> signalingState pc = Stable
      then Inr (pc\<lparr>localDescription := Some d, signalingState := HaveLocalOffer\<rparr>)
      else if sdType d = Answer \<and> signalingState pc = HaveRemoteOffer
      then Inr (pc\<lparr>localDescription := Some d, signalingState := Stable\<rparr>)
      else Inl InvalidStateError)"

definition setRemoteDescription ::
  "sessionDescription \<Rightarrow> peerConnection \<Rightarrow> jsError + peerConnection" where
  "setRemoteDescription d pc =
     (if sdType d = Answer \<and> signalingState pc = HaveLocalOffer
      then Inr (pc\<lparr>remoteDescription := Some d, signalingState := Stable\<rparr>)
      else if sdType d = Offer \<and> signalingState pc = Stable
      then Inr (pc\<lparr>remoteDescription := Some d, signalingState := HaveRemoteOffer\<rparr>)
      else Inl InvalidStateError)"


text \<open>\<open>close()\<close> closes the connection and every data channel created on it.\<close>

definition pcClose :: "peerConnection \<Rightarrow> peerConnection" where
  "pcClose pc =
     pc\<lparr>connectionState := CClosed, signalingState := SigClosed,
        audioChannel := (audioChannel pc)\<lparr>readyState := Closed\<rparr>,
        controlChannel := (controlChannel pc)\<lparr>readyState := Closed\<rparr>\<rparr>"

text \<open>
  \<open>RTCDataChannel.send\<close>: throws on a channel that is not open, and may throw on an
  open one (a full buffer, a network error); \<open>fails\<close> is the transport's verdict for
  this call.
\<close>

definition channelSend :: "bool \<Rightarrow> payload \<Rightarrow> dataChannel \<Rightarrow> jsError + dataChannel" where
  "channelSend fails p ch =
     (if readyState ch \<noteq> Open then Inl InvalidStateError
      else if fails then Inl OperationError
      else Inr (ch\<lparr>delivered := delivered ch @ [p]\<rparr>))"

section \<open>MicrophoneManager\<close>

datatype audioContextState = Suspended | Running

record audioContext =
  sampleRate :: real
  ctxState :: audioContextState

record analyserNode =
  fftSize :: nat
  smoothingTimeConstant :: real

datatype trackState = Live | Ended

record mediaStream =
  tracks :: "trackState list"

record microphoneManager =
  stream :: "mediaStream option"
  audioContext :: "audioContext option"
  analyser :: "analyserNode option"
  gainNode :: "real option"
  isEnabled :: bool
  selectedDeviceId :: string

definition newMicrophoneManager :: microphoneManager where
  "newMicrophoneManager =
     \<lparr>stream = None, audioContext = None, analyser = None, gainNode = None,
      isEnabled = False, selectedDeviceId = ''default''\<rparr>"

text \<open>\<open>AUDIO_CONFIG.sampleRate\<close> of the shared constants.\<close>

definition AUDIO_CONFIG_sampleRate :: real where
  "AUDIO_CONFIG_sampleRate = 48000"

text \<open>
  \<open>start(deviceId)\<close>. \<open>getUserMedia\<close> is the browser's answer to the capture
  request and \<open>fresh\<close> the state a newly built audio context starts in. When the
  request is rejected the error is thrown again, after the device id has been stored.
\<close>

definition start ::
  "string \<Rightarrow> (jsError + mediaStream) \<Rightarrow> audioContextState \<Rightarrow> microphoneManager
     \<Rightarrow> (jsError + mediaStream) \<times> microphoneManager" where
  "start deviceId getUserMedia fresh m =
     (let m1 = m\<lparr>selectedDeviceId := deviceId\<rparr> in
      case getUserMedia of
        Inl e \<Rightarrow> (Inl e, m1)
      | Inr s \<Rightarrow>
          (let ctx = (case audioContext m1 of
                        None \<Rightarrow> \<lparr>sampleRate = AUDIO_CONFIG_sampleRate, ctxState = fresh\<rparr>
                      | Some c \<Rightarrow> c);
               ctx' = (if ctxState ctx = Suspended then ctx\<lparr>ctxState := Running\<rparr> else ctx)
           in (Inr s,
               m1\<lparr>stream := Some s, audioContext := Some ctx',
                  analyser := Some \<lparr>fftSize = 2048, smoothingTimeConstant = 3 / 10\<rparr>,
                  gainNode := Some 5, isEnabled := True\<rparr>)))"

text \<open>
  \<open>track.stop()\<close> ends a track; \<open>stopTracks\<close> is the
  \<open>forEach\<close> over the tracks of a stream.
\<close>

definition stopTracks :: "mediaStream \<Rightarrow> mediaStream" where
  "stopTracks s = s\<lparr>tracks := map (\<lambda>t. Ended) (tracks s)\<rparr>"

text \<open>
  \<open>stop()\<close>. When the manager holds a stream, every track of it is stopped and the
  manager forgets the stream; in any case the manager is disabled. The stream is an object
  of its own, which the manager no longer refers to afterwards: the first component of the
  result is that object as \<open>stop\<close> leaves it (\<open>None\<close> when there was no
  stream), the second is the manager.
\<close>

definition stop :: "microphoneManager \<Rightarrow> mediaStream option \<times> microphoneManager" where
  "stop m =
     (case stream m of
        None \<Rightarrow> (None, m\<lparr>isEnabled := False\<rparr>)
      | Some s \<Rightarrow> (Some (stopTracks s), m\<lparr>stream := None, isEnabled := False\<rparr>))"

text \<open>
  \<open>getByteTimeDomainData(buf)\<close> copies the analyser's current window into the buffer,
  as many bytes as both hold; \<open>samples\<close> is that window.
\<close>

definition getByteTimeDomainData :: "8 word list \<Rightarrow> 8 word list \<Rightarrow> 8 word list" where
  "getByteTimeDomainData samples buf = take (length buf) (samples @ drop (length samples) buf)"

section \<open>WebRTCController\<close>

text \<open>
  The renderer process of the dashboard. Peer connections are objects: \<open>heap\<close> holds
  every connection ever built, by reference, and \<open>connections\<close> is the controller's
  \<open>Map\<close> from window id to such a reference. \<open>intervals\<close> are the live
  \<open>setInterval\<close> registrations (id, delay in ms, the connection whose audio channel the
  callback closes over), \<open>timeouts\<close> the pending \<open>setTimeout\<close> callbacks (each one
  a repeated \<open>handleIceCandidate\<close> call), \<open>outbox\<close> the calls made on
  \<open>window.electronAPI\<close>. Numbers are exact reals; the rounding of JavaScript's doubles
  is not modelled. An \<open>async\<close> method is one step: what other events do between its
  \<open>await\<close>s is not modelled.
\<close>

record dashboard =
  microphoneManager :: microphoneManager
  heap :: "nat \<Rightarrow> peerConnection option"
  nextRef :: nat
  connections :: "windowId \<Rightarrow> nat option"
  intervals :: "(nat \<times> real \<times> nat) list"
  nextTimer :: nat
  timeouts :: "(windowId \<times> iceCandidate) list"
  outbox :: "signal list"
  console :: "(logLevel \<times> string) list"

definition logTo :: "logLevel \<Rightarrow> string \<Rightarrow> dashboard \<Rightarrow> dashboard" where
  "logTo lvl msg w = w\<lparr>console := console w @ [(lvl, msg)]\<rparr>"

definition updatePc :: "nat \<Rightarrow> (peerConnection \<Rightarrow> peerConnection) \<Rightarrow> dashboard \<Rightarrow> dashboard" where
  "updatePc r f w = w\<lparr>heap := (heap w)(r := map_option f (heap w r))\<rparr>"

text \<open>\<open>this.connections.get(windowId)\<close>: the reference and the object behind it.\<close>

definition getConnection :: "dashboard \<Rightarrow> windowId \<Rightarrow> (nat \<times> peerConnection) option" where
  "getConnection w windowId =
     (case connections w windowId of
        None \<Rightarrow> None
      | Some r \<Rightarrow> map_option (Pair r) (heap w r))"

text \<open>
  The constructor takes the microphone manager alone: a second argument, as the
  application passes one, is dropped.
\<close>

definition newWebRTCController ::
  "microphoneManager \<Rightarrow> (windowId \<Rightarrow> dashboard \<Rightarrow> dashboard) \<Rightarrow> dashboard" where
  "newWebRTCController mm onClosed =
     \<lparr>microphoneManager = mm, heap = (\<lambda>r. None), nextRef = 0, connections = (\<lambda>k. None),
      intervals = [], nextTimer = 0, timeouts = [], outbox = [], console = []\<rparr>"

text \<open>The application's callback "for when WebRTC connection closes" and its controller.\<close>

definition handleConnectionClosed :: "windowId \<Rightarrow> dashboard \<Rightarrow> dashboard" where
  "handleConnectionClosed windowId w =
     (let w1 = logTo LogInfo ''WebRTC connection closed for window, notifying main process'' w
      in w1\<lparr>outbox := outbox w1 @ [NotifyWindowClosed windowId]\<rparr>)"

definition webrtcController :: dashboard where
  "webrtcController = newWebRTCController newMicrophoneManager handleConnectionClosed"

text \<open>\<open>typeof windowId === 'string' && windowId.includes('-')\<close>\<close>

fun isBrowserClient :: "windowId \<Rightarrow> bool" where
  "isBrowserClient (StrId s) = (CHR ''-'' \<in> set s)"
| "isBrowserClient (NumId n) = False"

text \<open>
  \<open>createConnection(windowId)\<close>. \<open>createOffer\<close> is what the browser's
  \<open>pc.createOffer()\<close> gives: an error or the SDP text of an offer. The method returns
  the new connection (its reference) or throws the error again.
\<close>

definition createConnection ::
  "(jsError + string) \<Rightarrow> windowId \<Rightarrow> dashboard \<Rightarrow> (jsError + nat) \<times> dashboard" where
  "createConnection createOffer windowId w =
     (let r = nextRef w;
          w1 = w\<lparr>heap := (heap w)(r \<mapsto> newRTCPeerConnection), nextRef := Suc r\<rparr>
      in case createOffer of
           Inl e \<Rightarrow> (Inl e, logTo LogError ''Failed to create connection:'' w1)
         | Inr s \<Rightarrow>
             (let offer = \<lparr>sdType = Offer, sdp = s\<rparr> in
              case setLocalDescription offer newRTCPeerConnection of
                Inl e \<Rightarrow> (Inl e, logTo LogError ''Failed to create connection:'' w1)
              | Inr pc \<Rightarrow>
                  (let w2 = w1\<lparr>heap := (heap w1)(r \<mapsto> pc),
                                connections := (connections w1)(windowId \<mapsto> r)\<rparr>
                   in (Inr r,
                       w2\<lparr>outbox := outbox w2 @
                            [if isBrowserClient windowId
                             then SendOfferToBrowserClient windowId offer
                             else SendOffer windowId offer]\<rparr>))))"

text \<open>The interval \<open>startAudioSending\<close> returns, in milliseconds.\<close>

definition startAudioSending :: "microphoneManager \<Rightarrow> real" where
  "startAudioSending m =
     (case analyser m of
        None \<Rightarrow> 1000 / 60
      | Some a \<Rightarrow>
          (case audioContext m of
             None \<Rightarrow> 1000 / 60
           | Some c \<Rightarrow> (real (fftSize a) / sampleRate c) * 1000))"

definition noMicrophone :: "microphoneManager \<Rightarrow> bool" where
  "noMicrophone m = (analyser m = None \<or> audioContext m = None)"

text \<open>\<open>audioChannel.onopen\<close> of the connection \<open>r\<close> built for \<open>windowId\<close>.\<close>

definition audioChannel_onopen :: "windowId \<Rightarrow> nat \<Rightarrow> dashboard \<Rightarrow> dashboard" where
  "audioChannel_onopen windowId r w =
     (let w1 = logTo LogInfo ''Audio DataChannel opened for window:'' w;
          w2 = (if noMicrophone (microphoneManager w1)
                then logTo LogInfo ''No microphone yet, will send silence'' w1 else w1);
          intervalMs = startAudioSending (microphoneManager w2);
          intervalId = nextTimer w2;
          w3 = w2\<lparr>intervals := intervals w2 @ [(intervalId, intervalMs, r)],
                    nextTimer := Suc intervalId\<rparr>
      in updatePc r (\<lambda>pc. pc\<lparr>audioChannelInterval := Some intervalId\<rparr>) w3)"

text \<open>
  \<open>sendAnalysisData\<close>, the interval's callback. \<open>samples\<close> is the analyser's
  current window and \<open>fails\<close> the transport's verdict on this send.
\<close>

definition sendAnalysisData ::
  "8 word list \<Rightarrow> bool \<Rightarrow> nat \<Rightarrow> dashboard \<Rightarrow> (jsError + unit) \<times> dashboard" where
  "sendAnalysisData samples fails r w =
     (case heap w r of
        None \<Rightarrow> (Inr (), w)
      | Some pc \<Rightarrow>
          if readyState (audioChannel pc) = Open then
            (case analyser (microphoneManager w) of
               Some a \<Rightarrow>
                 (let timeData = getByteTimeDomainData samples (replicate (fftSize a) 0) in
                  case channelSend fails (Binary timeData) (audioChannel pc) of
                    Inr ch \<Rightarrow> (Inr (), w\<lparr>heap := (heap w)(r \<mapsto> pc\<lparr>audioChannel := ch\<rparr>)\<rparr>)
                  | Inl e \<Rightarrow> (Inr (), logTo LogWarn ''Audio DataChannel send failed:'' w))
             | None \<Rightarrow>
                 (let silenceData = replicate 2048 128 in
                  case channelSend fails (Binary silenceData) (audioChannel pc) of
                    Inr ch \<Rightarrow> (Inr (), w\<lparr>heap := (heap w)(r \<mapsto> pc\<lparr>audioChannel := ch\<rparr>)\<rparr>)
                  | Inl e \<Rightarrow> (Inr (), logTo LogWarn ''Audio DataChannel send failed:'' w)))
          else (Inr (), w))"

text \<open>The interval \<open>tid\<close> fires: its callback runs if the interval is still registered.\<close>

definition fireInterval ::
  "8 word list \<Rightarrow> bool \<Rightarrow> nat \<Rightarrow> dashboard \<Rightarrow> (jsError + unit) \<times> dashboard" where
  "fireInterval samples fails tid w =
     (case find (\<lambda>t. fst t = tid) (intervals w) of
        None \<Rightarrow> (Inr (), w)
      | Some t \<Rightarrow> sendAnalysisData samples fails (snd (snd t)) w)"

text \<open>\<open>controlChannel.onopen\<close>: \<open>pc.controlChannel = controlChannel\<close>.\<close>

definition controlChannel_onopen :: "nat \<Rightarrow> dashboard \<Rightarrow> dashboard" where
  "controlChannel_onopen r w = updatePc r (\<lambda>pc. pc\<lparr>controlChannelSet := True\<rparr>) w"

text \<open>\<open>pc.onicecandidate\<close>; \<open>ev\<close> is \<open>event.candidate\<close>, \<open>None\<close> for null.\<close>

definition pc_onicecandidate :: "windowId \<Rightarrow> iceCandidate option \<Rightarrow> dashboard \<Rightarrow> dashboard" where
  "pc_onicecandidate windowId ev w =
     (case ev of
        None \<Rightarrow> w
      | Some c \<Rightarrow>
          (let candidateData = \<lparr>candidate = candidate c, sdpMid = sdpMid c,
                                sdpMLineIndex = sdpMLineIndex c\<rparr>
           in w\<lparr>outbox := outbox w @
                  [if isBrowserClient windowId
                   then SendIceToBrowserClient windowId candidateData
                   else SendIceCandidate windowId candidateData ToPopup]\<rparr>))"

text \<open>\<open>pc.onconnectionstatechange\<close> of the connection \<open>r\<close> built for \<open>windowId\<close>.\<close>

definition pc_onconnectionstatechange :: "windowId \<Rightarrow> nat \<Rightarrow> dashboard \<Rightarrow> dashboard" where
  "pc_onconnectionstatechange windowId r w =
     (case heap w r of
        None \<Rightarrow> w
      | Some pc \<Rightarrow>
          if connectionState pc = CFailed \<or> connectionState pc = CClosed
          then w\<lparr>connections := (connections w)(windowId := None)\<rparr>
          else w)"

text \<open>The browser's events: it changes the object, then calls the handler.\<close>

definition audioChannelOpens :: "windowId \<Rightarrow> nat \<Rightarrow> dashboard \<Rightarrow> dashboard" where
  "audioChannelOpens windowId r w =
     audioChannel_onopen windowId r
       (updatePc r (\<lambda>pc. pc\<lparr>audioChannel := (audioChannel pc)\<lparr>readyState := Open\<rparr>\<rparr>) w)"

definition controlChannelOpens :: "nat \<Rightarrow> dashboard \<Rightarrow> dashboard" where
  "controlChannelOpens r w =
     controlChannel_onopen r
       (updatePc r (\<lambda>pc. pc\<lparr>controlChannel := (controlChannel pc)\<lparr>readyState := Open\<rparr>\<rparr>) w)"

definition connectionStateChanges ::
  "windowId \<Rightarrow> nat \<Rightarrow> rtcConnectionState \<Rightarrow> dashboard \<Rightarrow> dashboard" where
  "connectionStateChanges windowId r s w =
     pc_onconnectionstatechange windowId r (updatePc r (\<lambda>pc. pc\<lparr>connectionState := s\<rparr>) w)"

text \<open>\<open>handleAnswer(windowId, answer)\<close>\<close>

definition handleAnswer ::
  "windowId \<Rightarrow> sessionDescription \<Rightarrow> dashboard \<Rightarrow> (jsError + unit) \<times> dashboard" where
  "handleAnswer windowId answer w =
     (case getConnection w windowId of
        None \<Rightarrow> (Inr (), w)
      | Some (r, pc) \<Rightarrow>
          (case setRemoteDescription answer pc of
             Inr pc' \<Rightarrow> (Inr (), w\<lparr>heap := (heap w)(r \<mapsto> pc')\<rparr>)
           | Inl e \<Rightarrow> (Inr (), logTo LogError ''Failed to set remote description:'' w)))"



text \<open>\<open>closeConnection(windowId)\<close>\<close>

definition closeConnection :: "windowId \<Rightarrow> dashboard \<Rightarrow> (jsError + unit) \<times> dashboard" where
  "closeConnection windowId w =
     (case getConnection w windowId of
        None \<Rightarrow> (Inr (), w)
      | Some (r, pc) \<Rightarrow>
          (Inr (), w\<lparr>heap := (heap w)(r \<mapsto> pcClose pc),
                      connections := (connections w)(windowId := None)\<rparr>))"

text \<open>
  \<open>sendControlMessage(windowId, message)\<close>. \<open>stringify\<close> is \<open>JSON.stringify\<close>,
  \<open>None\<close> where it throws; \<open>fails\<close> is the transport's verdict on the send.
\<close>

definition sendControlMessage ::
  "('m \<Rightarrow> string option) \<Rightarrow> bool \<Rightarrow> windowId \<Rightarrow> 'm \<Rightarrow> dashboard
     \<Rightarrow> (jsError + bool) \<times> dashboard" where
  "sendControlMessage stringify fails windowId message w =
     (case getConnection w windowId of
        None \<Rightarrow> (Inr False, w)
      | Some (r, pc) \<Rightarrow>
          if \<not> controlChannelSet pc then (Inr False, w)
          else if readyState (controlChannel pc) \<noteq> Open then (Inr False, w)
          else
            (case stringify message of
               None \<Rightarrow> (Inr False, logTo LogError ''Failed to send control message:'' w)
             | Some json \<Rightarrow>
                 (case channelSend fails (Text json) (controlChannel pc) of
                    Inr ch \<Rightarrow> (Inr True, w\<lparr>heap := (heap w)(r \<mapsto> pc\<lparr>controlChannel := ch\<rparr>)\<rparr>)
                  | Inl e \<Rightarrow> (Inr False, logTo LogError ''Failed to send control message:'' w))))"

text \<open>
  The dashboard's microphone manager is the object the controller holds: starting and
  stopping it changes what the controller reads.
\<close>

definition startMicrophone ::
  "string \<Rightarrow> (jsError + mediaStream) \<Rightarrow> audioContextState \<Rightarrow> dashboard
     \<Rightarrow> (jsError + mediaStream) \<times> dashboard" where
  "startMicrophone deviceId getUserMedia fresh w =
     (let res = start deviceId getUserMedia fresh (microphoneManager w)
      in (fst res, w\<lparr>microphoneManager := snd res\<rparr>))"

definition stopMicrophone :: "dashboard \<Rightarrow> dashboard" where
  "stopMicrophone w = w\<lparr>microphoneManager := snd (stop (microphoneManager w))\<rparr>"

text \<open>
  \<open>updateMicrophoneStream()\<close>, which the dashboard calls after it has switched the
  microphone on: it writes a line to the console and does nothing else.
\<close>

definition updateMicrophoneStream :: "dashboard \<Rightarrow> dashboard" where
  "updateMicrophoneStream w =
     logTo LogInfo ''Microphone stream updated - connections will start sending audio data'' w"

section \<open>The receivers\<close>

text \<open>
  \<open>WebRTCReceiver\<close> (a popup window): its peer connection, null until
  \<open>initialize\<close>, the queue of candidates that came before the remote description, and
  the answers it has sent to the dashboard.
\<close>

record webrtcReceiver =
  peerConnection :: "peerConnection option"
  pendingICECandidates :: "iceCandidate list"
  sentAnswers :: "sessionDescription list"
  receiverConsole :: "(logLevel \<times> string) list"









section \<open>Scenarios\<close>

text \<open>
  Concrete runs of the code, used to evaluate it: the application's controller opens a
  session for popup window 1; then both channels of that session open; then an answer
  arrives; then the microphone is started.
\<close>

definition session1 :: dashboard where
  "session1 = snd (createConnection (Inr ''v=0'') (NumId 1) webrtcController)"

definition session1_open :: dashboard where
  "session1_open = controlChannelOpens 0 (audioChannelOpens (NumId 1) 0 session1)"

text \<open>The peer connection of that session once both of its channels are open.\<close>

definition session1_pc_open :: peerConnection where
  "session1_pc_open =
     newRTCPeerConnection\<lparr>localDescription := Some \<lparr>sdType = Offer, sdp = ''v=0''\<rparr>,
        signalingState := HaveLocalOffer,
        audioChannel := \<lparr>readyState = Open, delivered = []\<rparr>,
        controlChannel := \<lparr>readyState = Open, delivered = []\<rparr>,
        controlChannelSet := True, audioChannelInterval := Some 0\<rparr>"

definition session1_answered :: dashboard where
  "session1_answered = snd (handleAnswer (NumId 1) \<lparr>sdType = Answer, sdp = ''a=0''\<rparr> session1)"

definition session1_then_mic :: dashboard where
  "session1_then_mic =
     snd (startMicrophone ''default'' (Inr \<lparr>tracks = [Live]\<rparr>) Running session1_open)"

definition hostCandidate :: iceCandidate where
  "hostCandidate =
     \<lparr>candidate = Some ''candidate:1 1 udp 2122260223 192.168.1.5 50000 typ host'',
      sdpMid = Some ''0'', sdpMLineIndex = Some 0\<rparr>"





text \<open>A frame of silence: 2048 bytes, each the mid-scale value 128.\<close>

definition isSilenceFrame :: "payload \<Rightarrow> bool" where
  "isSilenceFrame p =
     (case p of
        Binary bs \<Rightarrow> length bs = 2048 \<and> list_all (\<lambda>b. b = 128) bs
      | Text t \<Rightarrow> False)"

section \<open>Evaluating the scenarios\<close>

lemma session1_eq:
  "session1 =
     \<lparr>microphoneManager = newMicrophoneManager,
      heap = [0 \<mapsto> newRTCPeerConnection\<lparr>localDescription := Some \<lparr>sdType = Offer, sdp = ''v=0''\<rparr>,
                          signalingState := HaveLocalOffer\<rparr>],
      nextRef = 1, connections = [NumId 1 \<mapsto> 0], intervals = [], nextTimer = 0,
      timeouts = [], outbox = [SendOffer (NumId 1) \<lparr>sdType = Offer, sdp = ''v=0''\<rparr>],
      console = []\<rparr>"
  by (simp add: session1_def createConnection_def webrtcController_def newWebRTCController_def
      setLocalDescription_def newRTCPeerConnection_def Let_def)

lemma session1_open_eq:
  "session1_open =
     \<lparr>microphoneManager = newMicrophoneManager,
      heap = [0 \<mapsto> session1_pc_open],
      nextRef = 1, connections = [NumId 1 \<mapsto> 0], intervals = [(0, 1000 / 60, 0)], nextTimer = 1,
      timeouts = [], outbox = [SendOffer (NumId 1) \<lparr>sdType = Offer, sdp = ''v=0''\<rparr>],
      console = [(LogInfo, ''Audio DataChannel opened for window:''),
                 (LogInfo, ''No microphone yet, will send silence'')]\<rparr>"
  by (simp add: session1_open_def session1_eq session1_pc_open_def controlChannelOpens_def
      audioChannelOpens_def controlChannel_onopen_def audioChannel_onopen_def updatePc_def
      logTo_def noMicrophone_def startAudioSending_def newMicrophoneManager_def
      newRTCPeerConnection_def newDataChannel_def Let_def)

lemma session1_then_mic_eq:
  "session1_then_mic = session1_open\<lparr>microphoneManager :=
     \<lparr>stream = Some \<lparr>tracks = [Live]\<rparr>,
      audioContext = Some \<lparr>sampleRate = 48000, ctxState = Running\<rparr>,
      analyser = Some \<lparr>fftSize = 2048, smoothingTimeConstant = 3 / 10\<rparr>,
      gainNode = Some 5, isEnabled = True, selectedDeviceId = ''default''\<rparr>\<rparr>"
  by (simp add: session1_then_mic_def startMicrophone_def start_def session1_open_eq
      newMicrophoneManager_def AUDIO_CONFIG_sampleRate_def Let_def)

lemma session1_answered_eq:
  "session1_answered = session1\<lparr>heap := [0 \<mapsto> newRTCPeerConnection
       \<lparr>localDescription := Some \<lparr>sdType = Offer, sdp = ''v=0''\<rparr>,
        remoteDescription := Some \<lparr>sdType = Answer, sdp = ''a=0''\<rparr>,
        signalingState := Stable\<rparr>]\<rparr>"
  by (simp add: session1_answered_def handleAnswer_def getConnection_def session1_eq
      setRemoteDescription_def newRTCPeerConnection_def)


section \<open>Facts shared by the claims\<close>

lemma getConnection_Some:
  "getConnection w k = Some (r, pc) \<longleftrightarrow> connections w k = Some r \<and> heap w r = Some pc"
  by (auto simp: getConnection_def split: option.splits)

lemma stop_eq: "snd (stop m) = m\<lparr>stream := None, isEnabled := False\<rparr>"
  by (cases "stream m") (simp_all add: stop_def)

lemma stop_ends_tracks:
  "fst (stop m) =
     (case stream m of
        None \<Rightarrow> None
      | Some st \<Rightarrow> Some (st\<lparr>tracks := replicate (length (tracks st)) Ended\<rparr>))"
  by (cases "stream m") (simp_all add: stop_def stopTracks_def map_replicate_const)

lemma sendAnalysisData_returns: "fst (sendAnalysisData samples fails r w) = Inr ()"
  by (simp add: sendAnalysisData_def Let_def split: option.splits sum.splits)

lemma sendAnalysisData_intervals:
  "intervals (snd (sendAnalysisData samples fails r w)) = intervals w"
  by (simp add: sendAnalysisData_def logTo_def Let_def split: option.splits sum.splits)

lemma silence_is_silence: "isSilenceFrame (Binary (replicate 2048 128))"
  by (simp add: isSilenceFrame_def list_all_iff)

lemma full_window_copied:
  "getByteTimeDomainData (replicate 2048 x) (replicate 2048 0) = replicate 2048 x"
  by (simp add: getByteTimeDomainData_def)

section \<open>Opening a session twice\<close>




section \<open>Closing a session\<close>

text \<open>
  What \<open>closeConnection\<close> does, for any state: it removes no interval, a second call
  is a successful no-op, and a tick for the closed connection sends nothing.
\<close>

lemma closeConnection_keeps_intervals:
  "intervals (snd (closeConnection windowId w)) = intervals w"
  by (simp add: closeConnection_def split: option.splits prod.splits)

lemma closeConnection_twice:
  "closeConnection windowId (snd (closeConnection windowId w)) =
     (Inr (), snd (closeConnection windowId w))"
  by (simp add: closeConnection_def getConnection_def split: option.splits prod.splits)

lemma no_frame_after_close:
  "getConnection w windowId = Some (r, pc) \<Longrightarrow>
   sendAnalysisData samples fails r (snd (closeConnection windowId w)) =
     (Inr (), snd (closeConnection windowId w))"
  by (simp add: closeConnection_def sendAnalysisData_def pcClose_def)

text \<open>
  C2, evaluated. The session of window 1 has its audio channel open, so its interval (id
  0) is registered. After \<open>closeConnection\<close> the session is gone from the registry,
  but the interval is still registered and the closed connection still carries its id:
  nothing cancels it. When it fires it sends nothing, and closing again succeeds.
\<close>

theorem closeConnection_leaves_interval_registered:
  "fst (closeConnection (NumId 1) session1_open) = Inr () \<and>
   connections (snd (closeConnection (NumId 1) session1_open)) (NumId 1) = None \<and>
   intervals (snd (closeConnection (NumId 1) session1_open)) = [(0, 1000 / 60, 0)] \<and>
   map_option audioChannelInterval (heap (snd (closeConnection (NumId 1) session1_open)) 0)
     = Some (Some 0) \<and>
   fireInterval samples fails 0 (snd (closeConnection (NumId 1) session1_open))
     = (Inr (), snd (closeConnection (NumId 1) session1_open)) \<and>
   closeConnection (NumId 1) (snd (closeConnection (NumId 1) session1_open))
     = (Inr (), snd (closeConnection (NumId 1) session1_open))"
proof -
  have session: "getConnection session1_open (NumId 1) = Some (0, session1_pc_open)"
    by (simp add: getConnection_def session1_open_eq)
  have registered: "find (\<lambda>t. fst t = 0) (intervals (snd (closeConnection (NumId 1) session1_open)))
      = Some (0, 1000 / 60, 0)"
    by (simp add: closeConnection_keeps_intervals session1_open_eq)
  have silent: "fireInterval samples fails 0 (snd (closeConnection (NumId 1) session1_open))
     = (Inr (), snd (closeConnection (NumId 1) session1_open))"
    by (simp add: fireInterval_def registered no_frame_after_close [OF session])
  have evicted: "fst (closeConnection (NumId 1) session1_open) = Inr () \<and>
      connections (snd (closeConnection (NumId 1) session1_open)) (NumId 1) = None \<and>
      map_option audioChannelInterval (heap (snd (closeConnection (NumId 1) session1_open)) 0)
        = Some (Some 0)"
    by (simp add: closeConnection_def session session1_pc_open_def pcClose_def
        newRTCPeerConnection_def)
  have kept: "intervals (snd (closeConnection (NumId 1) session1_open)) = [(0, 1000 / 60, 0)]"
    by (simp add: closeConnection_keeps_intervals session1_open_eq)
  from evicted kept silent closeConnection_twice [of "NumId 1" session1_open]
  show ?thesis by simp
qed

section \<open>A failed link\<close>

lemma connectionStateChanges_outbox:
  "outbox (connectionStateChanges windowId r st w) = outbox w"
  by (simp add: connectionStateChanges_def pc_onconnectionstatechange_def updatePc_def
      split: option.splits)

text \<open>
  C3, evaluated. The link of window 1 fails: the session is evicted, and nothing is sent
  to the main process. Had the callback the application passes to the constructor been
  called, the outbox would hold its \<open>notifyWindowClosed\<close>.
\<close>

theorem link_failure_sends_no_notification:
  "connections (connectionStateChanges (NumId 1) 0 CFailed session1_open) (NumId 1) = None \<and>
   outbox (connectionStateChanges (NumId 1) 0 CFailed session1_open)
     = [SendOffer (NumId 1) \<lparr>sdType = Offer, sdp = ''v=0''\<rparr>] \<and>
   outbox (handleConnectionClosed (NumId 1) session1_open)
     = [SendOffer (NumId 1) \<lparr>sdType = Offer, sdp = ''v=0''\<rparr>, NotifyWindowClosed (NumId 1)]"
  by (simp add: connectionStateChanges_def pc_onconnectionstatechange_def updatePc_def
      handleConnectionClosed_def logTo_def session1_open_eq Let_def)

section \<open>Applying the answer\<close>

text \<open>
  C4, as the code has it. \<open>handleAnswer\<close> never throws. For a window id that is not
  registered it does nothing at all: the state is unchanged, nothing is logged. For a
  registered session whose link is not waiting for an answer, the browser's rejection is
  caught and logged with \<open>console.error\<close>; the caller sees a normal return. For a
  session that is waiting, the answer becomes its remote description.
\<close>

theorem handleAnswer_swallows_failure:
  "fst (handleAnswer windowId answer w) = Inr () \<and>
   (getConnection w windowId = None \<longrightarrow> handleAnswer windowId answer w = (Inr (), w)) \<and>
   (getConnection w windowId = Some (r, pc) \<and> sdType answer = Answer \<and>
        signalingState pc \<noteq> HaveLocalOffer \<longrightarrow>
      handleAnswer windowId answer w =
        (Inr (), logTo LogError ''Failed to set remote description:'' w)) \<and>
   (getConnection w windowId = Some (r, pc) \<and> sdType answer = Answer \<and>
        signalingState pc = HaveLocalOffer \<longrightarrow>
      handleAnswer windowId answer w =
        (Inr (), w\<lparr>heap := (heap w)(r \<mapsto> pc\<lparr>remoteDescription := Some answer,
                                             signalingState := Stable\<rparr>)\<rparr>))"
  by (auto simp: handleAnswer_def setRemoteDescription_def split: option.splits sum.splits)

theorem handleAnswer_swallows_failure_witness:
  "handleAnswer (NumId 1) \<lparr>sdType = Answer, sdp = ''a=0''\<rparr> webrtcController
     = (Inr (), webrtcController) \<and>
   handleAnswer (NumId 1) \<lparr>sdType = Answer, sdp = ''a=1''\<rparr> session1_answered
     = (Inr (), logTo LogError ''Failed to set remote description:'' session1_answered) \<and>
   map_option remoteDescription
     (heap (snd (handleAnswer (NumId 1) \<lparr>sdType = Answer, sdp = ''a=0''\<rparr> session1)) 0)
     = Some (Some \<lparr>sdType = Answer, sdp = ''a=0''\<rparr>)"
  using
    handleAnswer_swallows_failure [where windowId = "NumId 1" and w = webrtcController
      and answer = "\<lparr>sdType = Answer, sdp = ''a=0''\<rparr>"]
    handleAnswer_swallows_failure [where windowId = "NumId 1" and w = session1_answered
      and answer = "\<lparr>sdType = Answer, sdp = ''a=1''\<rparr>" and r = 0
      and pc = "newRTCPeerConnection
       \<lparr>localDescription := Some \<lparr>sdType = Offer, sdp = ''v=0''\<rparr>,
        remoteDescription := Some \<lparr>sdType = Answer, sdp = ''a=0''\<rparr>,
        signalingState := Stable\<rparr>"]
    handleAnswer_swallows_failure [where windowId = "NumId 1" and w = session1
      and answer = "\<lparr>sdType = Answer, sdp = ''a=0''\<rparr>" and r = 0
      and pc = "newRTCPeerConnection
       \<lparr>localDescription := Some \<lparr>sdType = Offer, sdp = ''v=0''\<rparr>,
        signalingState := HaveLocalOffer\<rparr>"]
  by (simp add: getConnection_def session1_answered_eq session1_eq webrtcController_def
      newWebRTCController_def newRTCPeerConnection_def)

text \<open>
  The claim as the specification states it fails: the session of window 1 has had its
  answer, so its link is stable and no longer negotiating; a second answer is rejected by
  the browser, and \<open>handleAnswer\<close> returns normally with the error on the console.
\<close>

theorem handleAnswer_not_negotiating_counterexample:
  "connections session1_answered (NumId 1) = Some 0 \<and>
   map_option signalingState (heap session1_answered 0) = Some Stable \<and>
   handleAnswer (NumId 1) \<lparr>sdType = Answer, sdp = ''a=1''\<rparr> session1_answered =
     (Inr (), logTo LogError ''Failed to set remote description:'' session1_answered)"
  by (simp add: session1_answered_eq session1_eq handleAnswer_def getConnection_def
      setRemoteDescription_def newRTCPeerConnection_def)

section \<open>Remote candidates\<close>







section \<open>The cadence\<close>

text \<open>
  What the code does, for any state. \<open>audioChannel.onopen\<close> registers one interval
  with the delay \<open>startAudioSending\<close> returns at that moment: 1000/60 ms when the
  microphone manager has no analyser or no audio context, (fftSize / sampleRate) * 1000 ms
  otherwise, with the fftSize 2048 that \<open>start\<close> sets. No later step touches a
  registered interval.
\<close>

lemma cadence_fixed_at_channel_open:
  "intervals (audioChannel_onopen windowId r w) =
     intervals w @ [(nextTimer w, startAudioSending (microphoneManager w), r)] \<and>
   (analyser m = None \<or> audioContext m = None \<longrightarrow> startAudioSending m = 1000 / 60) \<and>
   (analyser m = Some a \<and> audioContext m = Some c \<longrightarrow>
      startAudioSending m = (real (fftSize a) / sampleRate c) * 1000) \<and>
   (start deviceId (Inr s) fresh mNew = (Inr s, m) \<and> audioContext m = Some c \<longrightarrow>
      startAudioSending m = (2048 / sampleRate c) * 1000) \<and>
   intervals (snd (startMicrophone deviceId getUserMedia fresh w)) = intervals w \<and>
   intervals (stopMicrophone w) = intervals w \<and>
   intervals (updateMicrophoneStream w) = intervals w \<and>
   intervals (snd (fireInterval samples fails tid w)) = intervals w"
proof -
  have opened: "intervals (audioChannel_onopen windowId r w) =
     intervals w @ [(nextTimer w, startAudioSending (microphoneManager w), r)]"
    by (simp add: audioChannel_onopen_def updatePc_def logTo_def Let_def)
  have fallback: "analyser m = None \<or> audioContext m = None \<longrightarrow> startAudioSending m = 1000 / 60"
    by (auto simp: startAudioSending_def split: option.splits)
  have live: "analyser m = Some a \<and> audioContext m = Some c \<longrightarrow>
      startAudioSending m = (real (fftSize a) / sampleRate c) * 1000"
    by (simp add: startAudioSending_def)
  have started: "start deviceId (Inr s) fresh mNew = (Inr s, m) \<and> audioContext m = Some c \<longrightarrow>
      startAudioSending m = (2048 / sampleRate c) * 1000"
    by (auto simp: start_def startAudioSending_def Let_def)
  have mic: "intervals (snd (startMicrophone deviceId getUserMedia fresh w)) = intervals w"
    by (simp add: startMicrophone_def Let_def)
  have stopped: "intervals (stopMicrophone w) = intervals w"
    by (simp add: stopMicrophone_def)
  have updated: "intervals (updateMicrophoneStream w) = intervals w"
    by (simp add: updateMicrophoneStream_def logTo_def)
  have tick: "intervals (snd (fireInterval samples fails tid w)) = intervals w"
    by (simp add: fireInterval_def sendAnalysisData_intervals split: option.splits)
  from opened fallback live started mic stopped updated tick show ?thesis by blast
qed

text \<open>
  C6, evaluated. The audio channel of window 1 opened while there was no microphone, so
  its interval was registered with 1000/60 ms. Then the microphone was started: analyser
  and audio context are there and the manager is enabled, so the delay the code computes
  for an active capture source is (2048 / 48000) * 1000 ms. The session's interval is
  still 1000/60 ms, also after \<open>updateMicrophoneStream\<close>.
\<close>

theorem cadence_stays_at_fallback_after_microphone_start:
  "analyser (microphoneManager session1_then_mic)
     = Some \<lparr>fftSize = 2048, smoothingTimeConstant = 3 / 10\<rparr> \<and>
   audioContext (microphoneManager session1_then_mic)
     = Some \<lparr>sampleRate = 48000, ctxState = Running\<rparr> \<and>
   isEnabled (microphoneManager session1_then_mic) \<and>
   intervals session1_then_mic = [(0, 1000 / 60, 0)] \<and>
   intervals (updateMicrophoneStream session1_then_mic) = [(0, 1000 / 60, 0)] \<and>
   startAudioSending (microphoneManager session1_then_mic) = (2048 / 48000) * 1000 \<and>
   (1000 / 60 :: real) \<noteq> (2048 / 48000) * 1000"
  by (simp add: session1_then_mic_eq session1_open_eq updateMicrophoneStream_def logTo_def
      startAudioSending_def)

section \<open>The frame scheduler's tick\<close>

text \<open>
  C7. The callback of the interval never throws and leaves every interval registered.
  When the interval \<open>tid\<close> belongs to a connection whose audio channel is open and the
  microphone manager has no analyser, the tick hands one frame to the channel: 2048 bytes,
  each 128. If a send throws, with or without an analyser, the only effect is a warning on
  the console.
\<close>

theorem silence_frame_each_tick:
  "fst (fireInterval samples fails tid w) = Inr () \<and>
   intervals (snd (fireInterval samples fails tid w)) = intervals w \<and>
   isSilenceFrame (Binary (replicate 2048 128)) \<and>
   (find (\<lambda>t. fst t = tid) (intervals w) = Some (tid, ms, r) \<and> heap w r = Some pc \<and>
        readyState (audioChannel pc) = Open \<and> analyser (microphoneManager w) = None \<longrightarrow>
      snd (fireInterval samples fails tid w) =
        (if fails then logTo LogWarn ''Audio DataChannel send failed:'' w
         else w\<lparr>heap := (heap w)(r \<mapsto> pc\<lparr>audioChannel :=
                (audioChannel pc)\<lparr>delivered :=
                   delivered (audioChannel pc) @ [Binary (replicate 2048 128)]\<rparr>\<rparr>)\<rparr>)) \<and>
   (find (\<lambda>t. fst t = tid) (intervals w) = Some (tid, ms, r) \<and> heap w r = Some pc \<and>
        readyState (audioChannel pc) = Open \<and> fails \<longrightarrow>
      snd (fireInterval samples fails tid w) = logTo LogWarn ''Audio DataChannel send failed:'' w)"
proof -
  have returns: "fst (fireInterval samples fails tid w) = Inr ()"
    by (simp add: fireInterval_def sendAnalysisData_returns split: option.splits)
  have timers: "intervals (snd (fireInterval samples fails tid w)) = intervals w"
    by (simp add: fireInterval_def sendAnalysisData_intervals split: option.splits)
  have frame: "find (\<lambda>t. fst t = tid) (intervals w) = Some (tid, ms, r) \<and> heap w r = Some pc \<and>
        readyState (audioChannel pc) = Open \<and> analyser (microphoneManager w) = None \<longrightarrow>
      snd (fireInterval samples fails tid w) =
        (if fails then logTo LogWarn ''Audio DataChannel send failed:'' w
         else w\<lparr>heap := (heap w)(r \<mapsto> pc\<lparr>audioChannel :=
                (audioChannel pc)\<lparr>delivered :=
                   delivered (audioChannel pc) @ [Binary (replicate 2048 128)]\<rparr>\<rparr>)\<rparr>)"
    by (simp add: fireInterval_def sendAnalysisData_def channelSend_def Let_def)
  have caught: "find (\<lambda>t. fst t = tid) (intervals w) = Some (tid, ms, r) \<and> heap w r = Some pc \<and>
        readyState (audioChannel pc) = Open \<and> fails \<longrightarrow>
      snd (fireInterval samples fails tid w) = logTo LogWarn ''Audio DataChannel send failed:'' w"
    by (simp add: fireInterval_def sendAnalysisData_def channelSend_def Let_def
        split: option.splits)
  from returns timers frame caught silence_is_silence show ?thesis by blast
qed

theorem silence_frame_each_tick_witness:
  "map_option (\<lambda>pc. delivered (audioChannel pc))
     (heap (snd (fireInterval [] False 0 session1_open)) 0) = Some [Binary (replicate 2048 128)] \<and>
   snd (fireInterval [] True 0 session1_open) =
     logTo LogWarn ''Audio DataChannel send failed:'' session1_open \<and>
   intervals (snd (fireInterval [] True 0 session1_open)) = [(0, 1000 / 60, 0)]"
  using silence_frame_each_tick [where samples = "[]" and fails = False and tid = 0
      and w = session1_open and ms = "1000 / 60" and r = 0 and pc = session1_pc_open]
    silence_frame_each_tick [where samples = "[]" and fails = True and tid = 0
      and w = session1_open and ms = "1000 / 60" and r = 0 and pc = session1_pc_open]
  by (simp add: session1_open_eq session1_pc_open_def newRTCPeerConnection_def newDataChannel_def
      newMicrophoneManager_def logTo_def)

section \<open>Control messages\<close>

text \<open>
  C8. \<open>sendControlMessage\<close> never throws: it returns a boolean. The boolean is false,
  and nothing changes, when the session is absent, when \<open>pc.controlChannel\<close> is not
  set, or when the control channel is not open. When the channel is set and open, the
  message serializes and the send does not throw, the JSON text is handed to the control
  channel and the result is true; when serializing or sending throws, the error is logged
  and the result is false.
\<close>

theorem sendControlMessage_best_effort:
  "(\<exists>b. fst (sendControlMessage stringify fails windowId message w) = Inr b) \<and>
   (getConnection w windowId = None \<longrightarrow>
      sendControlMessage stringify fails windowId message w = (Inr False, w)) \<and>
   (getConnection w windowId = Some (r, pc) \<and> \<not> controlChannelSet pc \<longrightarrow>
      sendControlMessage stringify fails windowId message w = (Inr False, w)) \<and>
   (getConnection w windowId = Some (r, pc) \<and> readyState (controlChannel pc) \<noteq> Open \<longrightarrow>
      sendControlMessage stringify fails windowId message w = (Inr False, w)) \<and>
   (getConnection w windowId = Some (r, pc) \<and> controlChannelSet pc \<and>
        readyState (controlChannel pc) = Open \<and> stringify message = Some json \<and> \<not> fails \<longrightarrow>
      sendControlMessage stringify fails windowId message w =
        (Inr True,
         w\<lparr>heap := (heap w)(r \<mapsto> pc\<lparr>controlChannel :=
              (controlChannel pc)\<lparr>delivered := delivered (controlChannel pc) @ [Text json]\<rparr>\<rparr>)\<rparr>)) \<and>
   (getConnection w windowId = Some (r, pc) \<and> controlChannelSet pc \<and>
        readyState (controlChannel pc) = Open \<and> (stringify message = None \<or> fails) \<longrightarrow>
      sendControlMessage stringify fails windowId message w =
        (Inr False, logTo LogError ''Failed to send control message:'' w))"
  by (auto simp: sendControlMessage_def channelSend_def split: option.splits sum.splits)

theorem sendControlMessage_best_effort_witness:
  "sendControlMessage (\<lambda>m. Some m) False (StrId ''ab-12'') ''{}'' session1_open
     = (Inr False, session1_open) \<and>
   sendControlMessage (\<lambda>m. Some m) False (NumId 1) ''{}'' session1
     = (Inr False, session1) \<and>
   fst (sendControlMessage (\<lambda>m. Some m) False (NumId 1) ''{}'' session1_open) = Inr True \<and>
   map_option (\<lambda>pc. delivered (controlChannel pc))
     (heap (snd (sendControlMessage (\<lambda>m. Some m) False (NumId 1) ''{}'' session1_open)) 0)
     = Some [Text ''{}'']"
  using
    sendControlMessage_best_effort [where stringify = "\<lambda>m. Some m" and fails = False
      and windowId = "StrId ''ab-12''" and message = "''{}''" and w = session1_open]
    sendControlMessage_best_effort [where stringify = "\<lambda>m. Some m" and fails = False
      and windowId = "NumId 1" and message = "''{}''" and w = session1 and r = 0
      and pc = "newRTCPeerConnection\<lparr>localDescription := Some \<lparr>sdType = Offer, sdp = ''v=0''\<rparr>,
                  signalingState := HaveLocalOffer\<rparr>"]
    sendControlMessage_best_effort [where stringify = "\<lambda>m. Some m" and fails = False
      and windowId = "NumId 1" and message = "''{}''" and w = session1_open and r = 0
      and pc = session1_pc_open and json = "''{}''"]
  by (simp add: getConnection_def session1_eq session1_open_eq session1_pc_open_def
      newRTCPeerConnection_def newDataChannel_def)

section \<open>Routing of signaling\<close>

text \<open>
  C9. The offer of \<open>createConnection\<close> and every candidate \<open>pc.onicecandidate\<close>
  reports are sent with the browser-client (relay) calls exactly when the window id is a
  string that contains the character \<open>-\<close>, and with the popup (IPC) calls otherwise;
  each is sent once, through one of the two only.
\<close>

theorem routing_by_id_format:
  "outbox (snd (createConnection (Inr s) windowId w)) =
     outbox w @ [if (\<exists>t. windowId = StrId t \<and> CHR ''-'' \<in> set t)
                 then SendOfferToBrowserClient windowId \<lparr>sdType = Offer, sdp = s\<rparr>
                 else SendOffer windowId \<lparr>sdType = Offer, sdp = s\<rparr>] \<and>
   outbox (pc_onicecandidate windowId (Some c) w) =
     outbox w @ [if (\<exists>t. windowId = StrId t \<and> CHR ''-'' \<in> set t)
                 then SendIceToBrowserClient windowId
                        \<lparr>candidate = candidate c, sdpMid = sdpMid c, sdpMLineIndex = sdpMLineIndex c\<rparr>
                 else SendIceCandidate windowId
                        \<lparr>candidate = candidate c, sdpMid = sdpMid c, sdpMLineIndex = sdpMLineIndex c\<rparr>
                        ToPopup] \<and>
   adapterOf (SendOfferToBrowserClient windowId d) = Some Relay \<and>
   adapterOf (SendIceToBrowserClient windowId c) = Some Relay \<and>
   adapterOf (SendOffer windowId d) = Some Local \<and>
   adapterOf (SendIceCandidate windowId c ToPopup) = Some Local"
  by (cases windowId)
     (simp_all add: createConnection_def setLocalDescription_def newRTCPeerConnection_def
        pc_onicecandidate_def Let_def)

theorem routing_by_id_format_witness:
  "outbox (snd (createConnection (Inr ''v=0'') (NumId 7) webrtcController))
     = [SendOffer (NumId 7) \<lparr>sdType = Offer, sdp = ''v=0''\<rparr>] \<and>
   outbox (snd (createConnection (Inr ''v=0'') (StrId ''ab-12'') webrtcController))
     = [SendOfferToBrowserClient (StrId ''ab-12'') \<lparr>sdType = Offer, sdp = ''v=0''\<rparr>] \<and>
   outbox (pc_onicecandidate (StrId ''ab-12'') (Some hostCandidate) webrtcController)
     = [SendIceToBrowserClient (StrId ''ab-12'') hostCandidate] \<and>
   outbox (pc_onicecandidate (StrId ''ab12'') (Some hostCandidate) webrtcController)
     = [SendIceCandidate (StrId ''ab12'') hostCandidate ToPopup]"
  using routing_by_id_format [of "''v=0''" "NumId 7" webrtcController hostCandidate]
     routing_by_id_format [of "''v=0''" "StrId ''ab-12''" webrtcController hostCandidate]
     routing_by_id_format [of "''v=0''" "StrId ''ab12''" webrtcController hostCandidate]
  by (simp add: webrtcController_def newWebRTCController_def hostCandidate_def)

section \<open>Stopping the microphone\<close>

text \<open>
  C10. \<open>stop()\<close> ends every track of the stream the manager holds, sets
  \<open>stream\<close> to null and \<open>isEnabled\<close> to false, and changes no other field.
  After a successful \<open>start\<close> the analyser is therefore still there when the
  microphone is stopped, and a tick on an open audio channel sends the analyser's window,
  not the silence frame.
\<close>

theorem stop_keeps_analyser:
  "snd (stop m) = m\<lparr>stream := None, isEnabled := False\<rparr> \<and>
   analyser (snd (stop m)) = analyser m \<and> audioContext (snd (stop m)) = audioContext m \<and>
   gainNode (snd (stop m)) = gainNode m \<and>
   selectedDeviceId (snd (stop m)) = selectedDeviceId m \<and>
   (stream m = None \<longrightarrow> fst (stop m) = None) \<and>
   (stream m = Some st \<longrightarrow>
      fst (stop m) = Some (st\<lparr>tracks := replicate (length (tracks st)) Ended\<rparr>)) \<and>
   (start deviceId (Inr s) fresh mNew = (Inr s, m) \<longrightarrow>
      analyser (snd (stop m)) = Some \<lparr>fftSize = 2048, smoothingTimeConstant = 3 / 10\<rparr> \<and>
      fst (stop m) = Some (s\<lparr>tracks := replicate (length (tracks s)) Ended\<rparr>)) \<and>
   (heap w r = Some pc \<and> readyState (audioChannel pc) = Open \<and>
        analyser (microphoneManager w) = Some a \<longrightarrow>
      snd (sendAnalysisData samples False r (stopMicrophone w)) =
        (stopMicrophone w)\<lparr>heap := (heap w)(r \<mapsto> pc\<lparr>audioChannel :=
           (audioChannel pc)\<lparr>delivered := delivered (audioChannel pc) @
              [Binary (getByteTimeDomainData samples (replicate (fftSize a) 0))]\<rparr>\<rparr>)\<rparr>)"
proof -
  have fields: "snd (stop m) = m\<lparr>stream := None, isEnabled := False\<rparr>"
    by (rule stop_eq)
  have none: "stream m = None \<longrightarrow> fst (stop m) = None"
    by (simp add: stop_ends_tracks)
  have ended: "stream m = Some st \<longrightarrow>
      fst (stop m) = Some (st\<lparr>tracks := replicate (length (tracks st)) Ended\<rparr>)"
    by (simp add: stop_ends_tracks)
  have started: "start deviceId (Inr s) fresh mNew = (Inr s, m) \<longrightarrow>
      analyser (snd (stop m)) = Some \<lparr>fftSize = 2048, smoothingTimeConstant = 3 / 10\<rparr> \<and>
      fst (stop m) = Some (s\<lparr>tracks := replicate (length (tracks s)) Ended\<rparr>)"
    by (auto simp: stop_eq stop_ends_tracks start_def Let_def)
  have tick: "heap w r = Some pc \<and> readyState (audioChannel pc) = Open \<and>
        analyser (microphoneManager w) = Some a \<longrightarrow>
      snd (sendAnalysisData samples False r (stopMicrophone w)) =
        (stopMicrophone w)\<lparr>heap := (heap w)(r \<mapsto> pc\<lparr>audioChannel :=
           (audioChannel pc)\<lparr>delivered := delivered (audioChannel pc) @
              [Binary (getByteTimeDomainData samples (replicate (fftSize a) 0))]\<rparr>\<rparr>)\<rparr>"
    by (simp add: stop_eq sendAnalysisData_def stopMicrophone_def channelSend_def Let_def)
  from fields none ended started tick show ?thesis by simp
qed

theorem stop_keeps_analyser_witness:
  "fst (stop (microphoneManager session1_then_mic)) = Some \<lparr>tracks = [Ended]\<rparr> \<and>
   stream (snd (stop (microphoneManager session1_then_mic))) = None \<and>
   fst (stop newMicrophoneManager) = None \<and>
   map_option fftSize (analyser (microphoneManager (stopMicrophone session1_then_mic))) = Some 2048 \<and>
   isEnabled (microphoneManager (stopMicrophone session1_then_mic)) = False \<and>
   map_option (\<lambda>pc. delivered (audioChannel pc))
     (heap (snd (sendAnalysisData (replicate 2048 200) False 0 (stopMicrophone session1_then_mic))) 0)
     = Some [Binary (replicate 2048 200)] \<and>
   isSilenceFrame (Binary (replicate 2048 200)) = False"
  using stop_keeps_analyser [where m = "microphoneManager session1_then_mic"
      and deviceId = "''default''" and fresh = Running and s = "\<lparr>tracks = [Live]\<rparr>"
      and st = "\<lparr>tracks = [Live]\<rparr>"
      and mNew = newMicrophoneManager and w = session1_then_mic and r = 0
      and pc = session1_pc_open and a = "\<lparr>fftSize = 2048, smoothingTimeConstant = 3 / 10\<rparr>"
      and samples = "replicate 2048 200"]
    stop_keeps_analyser [where m = newMicrophoneManager]
  by (simp add: session1_then_mic_eq session1_open_eq session1_pc_open_def full_window_copied
      stopMicrophone_def stop_eq start_def newMicrophoneManager_def AUDIO_CONFIG_sampleRate_def
      Let_def newRTCPeerConnection_def newDataChannel_def isSilenceFrame_def list_all_iff)

end
